theory Spec2Isabelle
  imports Main
begin

section \<open>The store of convex/files.ts\<close>

text \<open>
  The handlers of \<^verbatim>\<open>convex/files.ts\<close> work on two tables, \<^verbatim>\<open>files\<close> and
  \<^verbatim>\<open>favorites\<close>, on the file storage and on the user document that \<^verbatim>\<open>getUser(ctx)\<close>
  resolves. Document ids (\<^verbatim>\<open>Id<"files">\<close>, \<^verbatim>\<open>Id<"favorites">\<close>, \<^verbatim>\<open>Id<"users">\<close>,
  \<^verbatim>\<open>Id<"_storage">\<close>) are natural numbers, organisation ids and roles are strings.
  A table is the list of its documents in creation order, which is the order an index
  range with all of its fields fixed is read in.
\<close>

record membership =
  m_orgId :: string
  m_role :: string

record user =
  u_id :: nat
  orgIds :: "membership list"

text \<open>
  A document of the table \<^verbatim>\<open>files\<close>. The validator \<^verbatim>\<open>fileTypes\<close> comes from
  \<^verbatim>\<open>./schema\<close>, which is not among the sources: the type of its members is the
  parameter \<open>'ty\<close>. \<^verbatim>\<open>createFile\<close> writes no \<^verbatim>\<open>shouldDelete\<close>, so the field is
  optional: \<open>None\<close> is the absent field.
\<close>

record 'ty fileDoc =
  f_id :: nat
  f_name :: string
  f_orgId :: string
  f_fileId :: nat
  f_type :: 'ty
  f_userId :: nat
  f_shouldDelete :: "bool option"

record favorite =
  fav_id :: nat
  fav_fileId :: nat
  fav_userId :: nat
  fav_orgId :: string

text \<open>
  The file storage maps a storage id to the URL \<^verbatim>\<open>ctx.storage.getUrl\<close> resolves it to;
  a storage id outside its domain has no blob. \<open>nextId\<close> is the id the next
  \<^verbatim>\<open>ctx.db.insert\<close> hands out: the store never gives an id twice.
\<close>

record 'ty state =
  files :: "'ty fileDoc list"
  favorites :: "favorite list"
  storage :: "nat \<rightharpoonup> string"
  nextId :: nat

text \<open>
  \<^verbatim>\<open>ConvexError\<close> carries the message the handler throws. \<open>BlobUnavailable\<close> is the
  rejection of \<^verbatim>\<open>ctx.storage.delete\<close>.
\<close>

datatype error = ConvexError string | BlobUnavailable

text \<open>
  A mutation is one transaction: a handler that throws commits none of its writes.
  \<open>commit s r\<close> is the store after a mutation that started in \<open>s\<close> and ended as \<open>r\<close>.
\<close>

definition commit :: "'ty state \<Rightarrow> error + 'ty state \<Rightarrow> 'ty state" where
  "commit s r = (case r of Inl e \<Rightarrow> s | Inr s' \<Rightarrow> s')"

subsection \<open>The database and storage calls the handlers make\<close>

text \<open>\<^verbatim>\<open>ctx.db.get(fileId)\<close>: the document with that id, or null.\<close>

definition db_get :: "'ty state \<Rightarrow> nat \<Rightarrow> 'ty fileDoc option" where
  "db_get s fid = find (\<lambda>f. f_id f = fid) (files s)"

text \<open>\<^verbatim>\<open>ctx.db.patch(fileId, { shouldDelete: b })\<close>.\<close>

definition db_patch :: "'ty state \<Rightarrow> nat \<Rightarrow> bool \<Rightarrow> 'ty state" where
  "db_patch s fid b =
     s\<lparr>files := map (\<lambda>f. if f_id f = fid then f\<lparr>f_shouldDelete := Some b\<rparr> else f) (files s)\<rparr>"

text \<open>\<^verbatim>\<open>ctx.db.delete(id)\<close> on a document of \<^verbatim>\<open>files\<close> and of \<^verbatim>\<open>favorites\<close>.\<close>

definition db_delete_file :: "'ty state \<Rightarrow> nat \<Rightarrow> 'ty state" where
  "db_delete_file s i = s\<lparr>files := filter (\<lambda>f. f_id f \<noteq> i) (files s)\<rparr>"

definition db_delete_favorite :: "'ty state \<Rightarrow> nat \<Rightarrow> 'ty state" where
  "db_delete_favorite s i = s\<lparr>favorites := filter (\<lambda>v. fav_id v \<noteq> i) (favorites s)\<rparr>"

text \<open>
  Modelled from the spec: the Blob Storage Gateway is a collaborator outside the sources
  (\<^verbatim>\<open>deleteBlob(storageRef) -> success | NotFound\<close>, \<^verbatim>\<open>resolveUrl(storageRef) -> URL | null\<close>).
  \<^verbatim>\<open>ctx.storage.delete\<close> removes the blob, and rejects when there is none.
\<close>

definition storage_delete :: "'ty state \<Rightarrow> nat \<Rightarrow> error + 'ty state" where
  "storage_delete s sid =
     (if sid \<in> dom (storage s) then Inr (s\<lparr>storage := (storage s)(sid := None)\<rparr>)
      else Inl BlobUnavailable)"

definition storage_getUrl :: "'ty state \<Rightarrow> nat \<Rightarrow> string option" where
  "storage_getUrl s sid = storage s sid"

subsection \<open>Access checks\<close>

text \<open>
  \<^verbatim>\<open>getUser\<close> comes from \<^verbatim>\<open>./users\<close>, which is not among the sources. Its result for
  the calling context is the argument \<open>actor\<close> of every handler: \<open>None\<close> is null.
\<close>

definition hasAccessToOrg :: "user option \<Rightarrow> string \<Rightarrow> user option" where
  "hasAccessToOrg actor orgId =
     (case actor of
        None \<Rightarrow> None
      | Some user \<Rightarrow>
          if list_ex (\<lambda>item. m_orgId item = orgId) (orgIds user) then Some user else None)"

definition hasAccessToFile :: "user option \<Rightarrow> 'ty state \<Rightarrow> nat \<Rightarrow> (user \<times> 'ty fileDoc) option" where
  "hasAccessToFile actor s fileId =
     (case db_get s fileId of
        None \<Rightarrow> None
      | Some file \<Rightarrow>
          (case hasAccessToOrg actor (f_orgId file) of
             None \<Rightarrow> None
           | Some user \<Rightarrow> Some (user, file)))"

text \<open>
  \<^verbatim>\<open>user.orgIds.find(...)?.role === "admin"\<close>: the first membership of the file's
  organisation decides, and no membership is not an admin.
\<close>

definition isAdminOf :: "user \<Rightarrow> string \<Rightarrow> bool" where
  "isAdminOf user orgId =
     (case find (\<lambda>org. m_orgId org = orgId) (orgIds user) of
        None \<Rightarrow> False
      | Some org \<Rightarrow> m_role org = ''admin'')"

definition assertCanDeleteFile :: "user \<Rightarrow> 'ty fileDoc \<Rightarrow> error + unit" where
  "assertCanDeleteFile user file =
     (let canDelete = (f_userId file = u_id user \<or> isAdminOf user (f_orgId file))
      in if \<not> canDelete then Inl (ConvexError ''You do not have access to delete this file.'')
         else Inr ())"

subsection \<open>createFile\<close>

record 'ty createFileArgs =
  c_name :: string
  c_fileId :: nat
  c_orgId :: string
  c_type :: 'ty

definition createFile :: "user option \<Rightarrow> 'ty state \<Rightarrow> 'ty createFileArgs \<Rightarrow> error + 'ty state" where
  "createFile actor s args =
     (case hasAccessToOrg actor (c_orgId args) of
        None \<Rightarrow> Inl (ConvexError ''You do not have access to this organization.'')
      | Some user \<Rightarrow>
          Inr (s\<lparr>files := files s @
                   [\<lparr>f_id = nextId s, f_name = c_name args, f_orgId = c_orgId args,
                     f_fileId = c_fileId args, f_type = c_type args, f_userId = u_id user,
                     f_shouldDelete = None\<rparr>],
                 nextId := Suc (nextId s)\<rparr>))"

subsection \<open>getFiles and getAllFavorites\<close>

text \<open>
  A name or a query is the list of its code units, as characters of eight bits: a string
  with a code unit above 255 is outside the model. \<^verbatim>\<open>String.prototype.toLowerCase\<close>
  is a built-in of the platform and not in the sources: it is the argument
  \<open>toLowerCase\<close> of \<^verbatim>\<open>getFiles\<close>. What it does to a string of ASCII characters is
  \<open>asciiLowerCase\<close>: the letters \<^verbatim>\<open>A\<close> to \<^verbatim>\<open>Z\<close> become \<^verbatim>\<open>a\<close> to \<^verbatim>\<open>z\<close> and every
  other ASCII character stays. \<open>lowersAscii\<close> says so of an implementation; nothing is
  taken for granted about what it does to other strings.
\<close>

definition lowerChar :: "char \<Rightarrow> char" where
  "lowerChar c =
     (case map_of (zip ''ABCDEFGHIJKLMNOPQRSTUVWXYZ'' ''abcdefghijklmnopqrstuvwxyz'') c of
        None \<Rightarrow> c
      | Some d \<Rightarrow> d)"

definition asciiLowerCase :: "string \<Rightarrow> string" where
  "asciiLowerCase str = map lowerChar str"



text \<open>
  \<^verbatim>\<open>String.prototype.includes\<close>: the second string is a contiguous run of code units of
  the first.
\<close>

fun startsWith :: "string \<Rightarrow> string \<Rightarrow> bool" where
  "startsWith str [] = True"
| "startsWith [] (c # sub) = False"
| "startsWith (d # str) (c # sub) = (d = c \<and> startsWith str sub)"

fun str_includes :: "string \<Rightarrow> string \<Rightarrow> bool" where
  "str_includes [] sub = (sub = [])"
| "str_includes (d # str) sub = (startsWith (d # str) sub \<or> str_includes str sub)"

record 'ty getFilesArgs =
  g_orgId :: string
  g_query :: "string option"
  g_favorites :: "bool option"
  g_deletedOnly :: "bool option"
  g_type :: "'ty option"

text \<open>
  The truth value JavaScript gives an optional argument in a condition: an absent
  argument, \<^verbatim>\<open>false\<close> and the empty string are falsy. Every member of \<^verbatim>\<open>fileTypes\<close>
  is taken to be truthy (a union of non-empty string literals), so \<^verbatim>\<open>args.type\<close> is
  truthy exactly when it is given. An absent \<^verbatim>\<open>shouldDelete\<close> is falsy.
\<close>

definition truthy :: "bool option \<Rightarrow> bool" where
  "truthy b = (b = Some True)"

definition withUrl :: "'ty state \<Rightarrow> 'ty fileDoc \<Rightarrow> 'ty fileDoc \<times> string option" where
  "withUrl s file = (file, storage_getUrl s (f_fileId file))"

definition getFiles ::
  "(string \<Rightarrow> string) \<Rightarrow> user option \<Rightarrow> 'ty state \<Rightarrow> 'ty getFilesArgs \<Rightarrow>
     error + ('ty fileDoc \<times> string option) list" where
  "getFiles toLowerCase actor s args =
     (case hasAccessToOrg actor (g_orgId args) of
        None \<Rightarrow> Inr []
      | Some user \<Rightarrow>
          (let files0 = filter (\<lambda>f. f_orgId f = g_orgId args) (files s);
               files1 =
                 (case g_query args of
                    None \<Rightarrow> files0
                  | Some q \<Rightarrow>
                      if q = [] then files0
                      else filter (\<lambda>f. str_includes (toLowerCase (f_name f)) (toLowerCase q)) files0);
               files2 =
                 (if truthy (g_favorites args) then
                    (let favs = filter (\<lambda>v. fav_userId v = u_id user \<and> fav_orgId v = g_orgId args)
                                   (favorites s)
                     in filter (\<lambda>f. list_ex (\<lambda>v. fav_fileId v = f_id f) favs) files1)
                  else files1);
               files3 =
                 (if truthy (g_deletedOnly args) then filter (\<lambda>f. truthy (f_shouldDelete f)) files2
                  else filter (\<lambda>f. \<not> truthy (f_shouldDelete f)) files2);
               files4 =
                 (case g_type args of
                    None \<Rightarrow> files3
                  | Some t \<Rightarrow> filter (\<lambda>f. f_type f = t) files3)
           in Inr (map (withUrl s) files4)))"

definition getAllFavorites :: "user option \<Rightarrow> 'ty state \<Rightarrow> string \<Rightarrow> error + favorite list" where
  "getAllFavorites actor s orgId =
     (case hasAccessToOrg actor orgId of
        None \<Rightarrow> Inr []
      | Some user \<Rightarrow>
          Inr (filter (\<lambda>v. fav_userId v = u_id user \<and> fav_orgId v = orgId) (favorites s)))"

subsection \<open>deleteAllFiles\<close>

text \<open>
  The index query of the sweep: the documents whose \<^verbatim>\<open>shouldDelete\<close> equals
  \<^verbatim>\<open>true\<close>. A document without the field is not in that range.
\<close>

definition purgeCandidates :: "'ty state \<Rightarrow> 'ty fileDoc list" where
  "purgeCandidates s = filter (\<lambda>f. f_shouldDelete f = Some True) (files s)"

text \<open>
  The callback of \<^verbatim>\<open>files.map\<close>: the record is deleted after the awaited
  \<^verbatim>\<open>ctx.storage.delete\<close>, so a rejection there leaves the callback before
  \<^verbatim>\<open>ctx.db.delete\<close>.
\<close>

definition purgeFile :: "'ty state \<Rightarrow> 'ty fileDoc \<Rightarrow> error + 'ty state" where
  "purgeFile s file =
     (case storage_delete s (f_fileId file) of
        Inl e \<Rightarrow> Inl e
      | Inr s1 \<Rightarrow> Inr (db_delete_file s1 (f_id file)))"

text \<open>
  \<^verbatim>\<open>await Promise.all(files.map(...))\<close>: the callbacks start in the order of the list,
  and the awaited promise rejects as soon as one of them does, which makes the handler
  throw. The storage calls and the record deletions touch different parts of the store, so
  running the callbacks one after the other gives the store the interleaved run gives.
\<close>

fun purgeAll :: "'ty state \<Rightarrow> 'ty fileDoc list \<Rightarrow> error + 'ty state" where
  "purgeAll s [] = Inr s"
| "purgeAll s (file # rest) =
     (case purgeFile s file of
        Inl e \<Rightarrow> Inl e
      | Inr s1 \<Rightarrow> purgeAll s1 rest)"

definition deleteAllFiles :: "'ty state \<Rightarrow> error + 'ty state" where
  "deleteAllFiles s = purgeAll s (purgeCandidates s)"

subsection \<open>deleteFile, restoreFile and toggleFavorite\<close>

definition deleteFile :: "user option \<Rightarrow> 'ty state \<Rightarrow> nat \<Rightarrow> error + 'ty state" where
  "deleteFile actor s fileId =
     (case hasAccessToFile actor s fileId of
        None \<Rightarrow> Inl (ConvexError ''No access to file.'')
      | Some (user, file) \<Rightarrow>
          (case assertCanDeleteFile user file of
             Inl e \<Rightarrow> Inl e
           | Inr u \<Rightarrow> Inr (db_patch s fileId True)))"

definition restoreFile :: "user option \<Rightarrow> 'ty state \<Rightarrow> nat \<Rightarrow> error + 'ty state" where
  "restoreFile actor s fileId =
     (case hasAccessToFile actor s fileId of
        None \<Rightarrow> Inl (ConvexError ''No access to file.'')
      | Some (user, file) \<Rightarrow>
          (case assertCanDeleteFile user file of
             Inl e \<Rightarrow> Inl e
           | Inr u \<Rightarrow> Inr (db_patch s fileId False)))"

text \<open>
  \<^verbatim>\<open>.first()\<close> on the index range with user, organisation and file fixed: the oldest
  such favorite.
\<close>

definition toggleFavorite :: "user option \<Rightarrow> 'ty state \<Rightarrow> nat \<Rightarrow> error + 'ty state" where
  "toggleFavorite actor s fileId =
     (case hasAccessToFile actor s fileId of
        None \<Rightarrow> Inl (ConvexError ''No access to file.'')
      | Some (user, file) \<Rightarrow>
          (case find (\<lambda>v. fav_userId v = u_id user \<and> fav_orgId v = f_orgId file \<and>
                           fav_fileId v = f_id file) (favorites s) of
             None \<Rightarrow>
               Inr (s\<lparr>favorites := favorites s @
                        [\<lparr>fav_id = nextId s, fav_fileId = f_id file, fav_userId = u_id user,
                          fav_orgId = f_orgId file\<rparr>],
                      nextId := Suc (nextId s)\<rparr>)
           | Some favorite \<Rightarrow> Inr (db_delete_favorite s (fav_id favorite))))"

subsection \<open>Sequences of operations\<close>

datatype 'ty operation =
    CreateFile "user option" "'ty createFileArgs"
  | DeleteFile "user option" nat
  | RestoreFile "user option" nat
  | ToggleFavorite "user option" nat
  | DeleteAllFiles

fun step :: "'ty state \<Rightarrow> 'ty operation \<Rightarrow> 'ty state" where
  "step s (CreateFile actor args) = commit s (createFile actor s args)"
| "step s (DeleteFile actor fileId) = commit s (deleteFile actor s fileId)"
| "step s (RestoreFile actor fileId) = commit s (restoreFile actor s fileId)"
| "step s (ToggleFavorite actor fileId) = commit s (toggleFavorite actor s fileId)"
| "step s DeleteAllFiles = commit s (deleteAllFiles s)"

definition run :: "'ty state \<Rightarrow> 'ty operation list \<Rightarrow> 'ty state" where
  "run s ops = foldl step s ops"

subsection \<open>Properties of a store\<close>

text \<open>The Favorite records of a user for a file, and their uniqueness per user and file.\<close>

definition favoriteRecords :: "'ty state \<Rightarrow> nat \<Rightarrow> nat \<Rightarrow> favorite list" where
  "favoriteRecords s userId fileId =
     filter (\<lambda>v. fav_userId v = userId \<and> fav_fileId v = fileId) (favorites s)"

definition favoritesUnique :: "'ty state \<Rightarrow> bool" where
  "favoritesUnique s = distinct (map (\<lambda>v. (fav_userId v, fav_fileId v)) (favorites s))"

text \<open>
  What the store guarantees about ids, and what \<^verbatim>\<open>toggleFavorite\<close> writes into a
  Favorite: no two files share an id, every id in use (of a document, or held by a
  Favorite as its file) was handed out before \<open>nextId\<close>, and a Favorite whose file is
  still there carries that file's organisation.
\<close>

definition wellFormed :: "'ty state \<Rightarrow> bool" where
  "wellFormed s =
     (distinct (map f_id (files s)) \<and>
      list_all (\<lambda>f. f_id f < nextId s) (files s) \<and>
      list_all (\<lambda>v. fav_id v < nextId s \<and> fav_fileId v < nextId s) (favorites s) \<and>
      list_all (\<lambda>v. list_all (\<lambda>f. f_id f = fav_fileId v \<longrightarrow> fav_orgId v = f_orgId f) (files s))
        (favorites s))"

subsection \<open>The listing as the specification words it\<close>














subsection \<open>Example users and stores\<close>

definition alice :: user where
  "alice = \<lparr>u_id = 1, orgIds = [\<lparr>m_orgId = ''acme'', m_role = ''member''\<rparr>]\<rparr>"

definition bob :: user where
  "bob = \<lparr>u_id = 2, orgIds = [\<lparr>m_orgId = ''acme'', m_role = ''admin''\<rparr>]\<rparr>"

definition carol :: user where
  "carol = \<lparr>u_id = 4, orgIds = [\<lparr>m_orgId = ''acme'', m_role = ''member''\<rparr>]\<rparr>"

definition outsider :: user where
  "outsider = \<lparr>u_id = 3, orgIds = [\<lparr>m_orgId = ''other'', m_role = ''admin''\<rparr>]\<rparr>"

text \<open>The user document of \<open>alice\<close> after she has left her organisation.\<close>

definition alice_left :: user where
  "alice_left = \<lparr>u_id = 1, orgIds = []\<rparr>"

definition report :: "string fileDoc" where
  "report = \<lparr>f_id = 0, f_name = ''Report.PDF'', f_orgId = ''acme'', f_fileId = 10,
     f_type = ''pdf'', f_userId = 1, f_shouldDelete = None\<rparr>"

definition upload :: "string createFileArgs" where
  "upload = \<lparr>c_name = ''Report.PDF'', c_fileId = 10, c_orgId = ''acme'', c_type = ''pdf''\<rparr>"

text \<open>A store holding one uploaded blob, and the store after \<open>alice\<close> has registered it.\<close>

definition uploaded :: "string state" where
  "uploaded = \<lparr>files = [], favorites = [], storage = [10 \<mapsto> ''https://blob/10''], nextId = 0\<rparr>"

definition store0 :: "string state" where
  "store0 = \<lparr>files = [report], favorites = [], storage = [10 \<mapsto> ''https://blob/10''],
     nextId = 1\<rparr>"

definition listAll :: "string getFilesArgs" where
  "listAll = \<lparr>g_orgId = ''acme'', g_query = None, g_favorites = None, g_deletedOnly = None,
     g_type = None\<rparr>"

text \<open>Two flagged files beside \<open>report\<close>; in \<open>trash_gone\<close> the blob of \<open>memo\<close> is gone.\<close>

definition draft :: "string fileDoc" where
  "draft = \<lparr>f_id = 1, f_name = ''draft.csv'', f_orgId = ''acme'', f_fileId = 11,
     f_type = ''csv'', f_userId = 4, f_shouldDelete = Some True\<rparr>"

definition memo :: "string fileDoc" where
  "memo = \<lparr>f_id = 2, f_name = ''Notes on the REPORT'', f_orgId = ''acme'', f_fileId = 12,
     f_type = ''pdf'', f_userId = 2, f_shouldDelete = Some True\<rparr>"

definition trash :: "string state" where
  "trash = \<lparr>files = [report, draft, memo], favorites = [],
     storage = [10 \<mapsto> ''https://blob/10'', 11 \<mapsto> ''https://blob/11'',
                12 \<mapsto> ''https://blob/12''], nextId = 3\<rparr>"

definition trash_gone :: "string state" where
  "trash_gone = \<lparr>files = [report, draft, memo], favorites = [],
     storage = [10 \<mapsto> ''https://blob/10'', 11 \<mapsto> ''https://blob/11''], nextId = 3\<rparr>"


text \<open>A store in which \<open>carol\<close> has favorited \<open>report\<close>.\<close>

definition starred :: "string state" where
  "starred = \<lparr>files = [report], favorites = [\<lparr>fav_id = 1, fav_fileId = 0, fav_userId = 4,
      fav_orgId = ''acme''\<rparr>], storage = [10 \<mapsto> ''https://blob/10''], nextId = 2\<rparr>"


text \<open>
  A store no operation builds: its one Favorite, of \<open>carol\<close> for \<open>report\<close>, carries
  another organisation than the file does.
\<close>

definition crossed :: "string state" where
  "crossed = \<lparr>files = [report],
     favorites = [\<lparr>fav_id = 1, fav_fileId = 0, fav_userId = 4, fav_orgId = ''other''\<rparr>],
     storage = [10 \<mapsto> ''https://blob/10''], nextId = 2\<rparr>"

definition session :: "string operation list" where
  "session = [CreateFile (Some alice) upload, ToggleFavorite (Some carol) 0,
     ToggleFavorite (Some alice) 0, DeleteFile (Some alice) 0, ToggleFavorite (Some bob) 0,
     ToggleFavorite (Some carol) 0, DeleteAllFiles, ToggleFavorite (Some alice) 0,
     CreateFile (Some bob) upload, RestoreFile (Some bob) 4]"

section \<open>Basic facts\<close>

lemma hasAccessToOrg_Some: "hasAccessToOrg actor orgId = Some user \<Longrightarrow> actor = Some user"
  by (auto simp: hasAccessToOrg_def split: option.splits if_splits)

lemma db_get_id: "db_get s fid = Some file \<Longrightarrow> f_id file = fid"
  by (auto simp: db_get_def find_Some_iff)


lemma outsider_no_member: "hasAccessToOrg (Some outsider) ''acme'' = None"
  by (simp add: hasAccessToOrg_def outsider_def)

lemma createFile_alice: "createFile (Some alice) uploaded upload = Inr store0"
  by (simp add: createFile_def hasAccessToOrg_def alice_def upload_def uploaded_def store0_def
      report_def)

lemma db_get_store0: "db_get store0 0 = Some report"
  by (simp add: db_get_def store0_def report_def)

lemma wellFormed_iff:
  "wellFormed s \<longleftrightarrow>
     distinct (map f_id (files s)) \<and>
     (\<forall>f\<in>set (files s). f_id f < nextId s) \<and>
     (\<forall>v\<in>set (favorites s). fav_id v < nextId s \<and> fav_fileId v < nextId s) \<and>
     (\<forall>v\<in>set (favorites s). \<forall>f\<in>set (files s). f_id f = fav_fileId v \<longrightarrow> fav_orgId v = f_orgId f)"
  by (simp add: wellFormed_def list_all_iff)

section \<open>createFile\<close>

text \<open>
  Claim C2, as stated, at a concrete input: \<open>alice\<close> is a member of the organisation, and
  the File record \<^verbatim>\<open>createFile\<close> inserts for her has no \<^verbatim>\<open>shouldDelete\<close> field, where the
  claim says the field is \<^verbatim>\<open>false\<close>.
\<close>

theorem createFile_shouldDelete_counterexample:
  "hasAccessToOrg (Some alice) (c_orgId upload) = Some alice \<and>
   map f_shouldDelete (files (commit uploaded (createFile (Some alice) uploaded upload))) = [None] \<and>
   map f_shouldDelete (files (commit uploaded (createFile (Some alice) uploaded upload))) \<noteq>
     [Some False]"
  by (simp add: hasAccessToOrg_def alice_def upload_def createFile_def commit_def uploaded_def)

text \<open>
  Claim C2, amended: for an actor with a membership in the target organisation,
  \<^verbatim>\<open>createFile\<close> appends one File record that has no \<^verbatim>\<open>shouldDelete\<close> field and whose
  \<^verbatim>\<open>userId\<close> is the actor's id; for an actor without such a membership it fails with
  the ConvexError "You do not have access to this organization." and the store stays as
  it was.
\<close>

theorem createFile_inserts:
  "(hasAccessToOrg (Some user) (c_orgId args) \<noteq> None \<longrightarrow>
      createFile (Some user) s args =
        Inr (s\<lparr>files := files s @
                 [\<lparr>f_id = nextId s, f_name = c_name args, f_orgId = c_orgId args,
                   f_fileId = c_fileId args, f_type = c_type args, f_userId = u_id user,
                   f_shouldDelete = None\<rparr>],
               nextId := Suc (nextId s)\<rparr>)) \<and>
   (hasAccessToOrg actor (c_orgId args) = None \<longrightarrow>
      createFile actor s args = Inl (ConvexError ''You do not have access to this organization.'') \<and>
      commit s (createFile actor s args) = s)"
  by (auto simp: createFile_def commit_def dest: hasAccessToOrg_Some split: option.splits)

theorem createFile_inserts_witness:
  "hasAccessToOrg (Some alice) (c_orgId upload) \<noteq> None \<and>
   createFile (Some alice) uploaded upload =
     Inr \<lparr>files = [\<lparr>f_id = 0, f_name = ''Report.PDF'', f_orgId = ''acme'', f_fileId = 10,
                    f_type = ''pdf'', f_userId = 1, f_shouldDelete = None\<rparr>],
          favorites = [], storage = [10 \<mapsto> ''https://blob/10''], nextId = 1\<rparr> \<and>
   hasAccessToOrg (Some outsider) (c_orgId upload) = None \<and>
   createFile (Some outsider) uploaded upload =
     Inl (ConvexError ''You do not have access to this organization.'') \<and>
   commit uploaded (createFile (Some outsider) uploaded upload) = uploaded"
proof -
  have a: "hasAccessToOrg (Some alice) (c_orgId upload) \<noteq> None"
    by (simp add: hasAccessToOrg_def alice_def upload_def)
  have b: "hasAccessToOrg (Some outsider) (c_orgId upload) = None"
    by (simp add: hasAccessToOrg_def outsider_def upload_def)
  from createFile_inserts [of alice upload uploaded "Some outsider"] a b
  show ?thesis
    by (simp add: uploaded_def upload_def alice_def commit_def)
qed

text \<open>
  Claim C10: the File record \<^verbatim>\<open>createFile\<close> inserts carries no \<^verbatim>\<open>shouldDelete\<close> field;
  the default view of \<^verbatim>\<open>getFiles\<close> (\<^verbatim>\<open>deletedOnly\<close> unset, or false) returns it, and it
  is not among the documents \<^verbatim>\<open>deleteAllFiles\<close> reads from its index, which holds
  \<^verbatim>\<open>shouldDelete\<close> equal to true only.
\<close>

theorem fresh_file_unflagged:
  assumes "createFile actor s args = Inr s'"
  shows "\<exists>file live1 live2.
           files s' = files s @ [file] \<and> f_shouldDelete file = None \<and>
           getFiles toLowerCase actor s' \<lparr>g_orgId = c_orgId args, g_query = None, g_favorites = None,
                              g_deletedOnly = None, g_type = None\<rparr> = Inr live1 \<and>
           withUrl s' file \<in> set live1 \<and>
           getFiles toLowerCase actor s' \<lparr>g_orgId = c_orgId args, g_query = None, g_favorites = None,
                              g_deletedOnly = Some False, g_type = None\<rparr> = Inr live2 \<and>
           withUrl s' file \<in> set live2 \<and>
           file \<notin> set (purgeCandidates s')"
  using assms
  by (auto simp: createFile_def getFiles_def truthy_def purgeCandidates_def
      split: option.splits)

theorem fresh_file_unflagged_witness:
  "createFile (Some alice) uploaded upload = Inr store0 \<and>
   (\<exists>file live1 live2.
      files store0 = files uploaded @ [file] \<and> f_shouldDelete file = None \<and>
      getFiles asciiLowerCase (Some alice) store0 \<lparr>g_orgId = c_orgId upload, g_query = None, g_favorites = None,
                                     g_deletedOnly = None, g_type = None\<rparr> = Inr live1 \<and>
      withUrl store0 file \<in> set live1 \<and>
      getFiles asciiLowerCase (Some alice) store0 \<lparr>g_orgId = c_orgId upload, g_query = None, g_favorites = None,
                                     g_deletedOnly = Some False, g_type = None\<rparr> = Inr live2 \<and>
      withUrl store0 file \<in> set live2 \<and>
      file \<notin> set (purgeCandidates store0))"
  using fresh_file_unflagged [OF createFile_alice, of asciiLowerCase] createFile_alice by blast

section \<open>Actors without a membership\<close>

text \<open>
  Claim C8: for an actor without a membership in the organisation (an unauthenticated
  actor is one), \<^verbatim>\<open>getFiles\<close> and \<^verbatim>\<open>getAllFavorites\<close> return the empty list and no
  error, while \<^verbatim>\<open>createFile\<close> for that organisation, and \<^verbatim>\<open>deleteFile\<close>,
  \<^verbatim>\<open>restoreFile\<close> and \<^verbatim>\<open>toggleFavorite\<close> on a file of that organisation, fail with a
  ConvexError.
\<close>

theorem no_membership_outcomes:
  assumes "hasAccessToOrg actor orgId = None"
  shows "getFiles toLowerCase actor s (gargs\<lparr>g_orgId := orgId\<rparr>) = Inr [] \<and>
         getAllFavorites actor s orgId = Inr [] \<and>
         createFile actor s (cargs\<lparr>c_orgId := orgId\<rparr>) =
           Inl (ConvexError ''You do not have access to this organization.'') \<and>
         (\<forall>fileId file. db_get s fileId = Some file \<and> f_orgId file = orgId \<longrightarrow>
            deleteFile actor s fileId = Inl (ConvexError ''No access to file.'') \<and>
            restoreFile actor s fileId = Inl (ConvexError ''No access to file.'') \<and>
            toggleFavorite actor s fileId = Inl (ConvexError ''No access to file.''))"
  using assms
  by (simp add: getFiles_def getAllFavorites_def createFile_def deleteFile_def restoreFile_def
      toggleFavorite_def hasAccessToFile_def)

theorem no_membership_outcomes_witness:
  "hasAccessToOrg (Some outsider) ''acme'' = None \<and> hasAccessToOrg None ''acme'' = None \<and>
   db_get store0 0 = Some report \<and> f_orgId report = ''acme'' \<and>
   getFiles asciiLowerCase (Some outsider) store0 listAll = Inr [] \<and>
   getFiles asciiLowerCase None store0 listAll = Inr [] \<and>
   getAllFavorites (Some outsider) store0 ''acme'' = Inr [] \<and>
   getAllFavorites None store0 ''acme'' = Inr [] \<and>
   createFile (Some outsider) store0 upload =
     Inl (ConvexError ''You do not have access to this organization.'') \<and>
   createFile None store0 upload =
     Inl (ConvexError ''You do not have access to this organization.'') \<and>
   deleteFile (Some outsider) store0 0 = Inl (ConvexError ''No access to file.'') \<and>
   restoreFile (Some outsider) store0 0 = Inl (ConvexError ''No access to file.'') \<and>
   toggleFavorite (Some outsider) store0 0 = Inl (ConvexError ''No access to file.'') \<and>
   deleteFile None store0 0 = Inl (ConvexError ''No access to file.'') \<and>
   restoreFile None store0 0 = Inl (ConvexError ''No access to file.'') \<and>
   toggleFavorite None store0 0 = Inl (ConvexError ''No access to file.'')"
proof -
  have b: "hasAccessToOrg None ''acme'' = (None :: user option)"
    by (simp add: hasAccessToOrg_def)
  have r: "f_orgId report = ''acme''"
    by (simp add: report_def)
  have l: "listAll\<lparr>g_orgId := ''acme''\<rparr> = listAll" "upload\<lparr>c_orgId := ''acme''\<rparr> = upload"
    by (simp_all add: listAll_def upload_def)
  show ?thesis
    using no_membership_outcomes [OF outsider_no_member, of asciiLowerCase store0 listAll upload]
      no_membership_outcomes [OF b, of asciiLowerCase store0 listAll upload]
      outsider_no_member b db_get_store0 r l
    by simp
qed

section \<open>deleteFile and restoreFile\<close>

lemma hasAccessToOrg_user:
  "hasAccessToOrg (Some user) orgId =
     (if list_ex (\<lambda>item. m_orgId item = orgId) (orgIds user) then Some user else None)"
  by (simp add: hasAccessToOrg_def)

lemma isAdminOf_member: "isAdminOf user orgId \<Longrightarrow> hasAccessToOrg (Some user) orgId = Some user"
  by (auto simp: isAdminOf_def hasAccessToOrg_def list_ex_iff find_Some_iff split: option.splits)

lemma db_get_db_patch:
  "db_get (db_patch s fid b) fid' =
     map_option (\<lambda>f. if f_id f = fid then f\<lparr>f_shouldDelete := Some b\<rparr> else f) (db_get s fid')"
proof -
  have "find (\<lambda>f. f_id f = fid') (map (\<lambda>f. if f_id f = fid then f\<lparr>f_shouldDelete := Some b\<rparr> else f) xs)
      = map_option (\<lambda>f. if f_id f = fid then f\<lparr>f_shouldDelete := Some b\<rparr> else f) (find (\<lambda>f. f_id f = fid') xs)" for xs :: "'a fileDoc list"
    by (induction xs) auto
  then show ?thesis by (simp add: db_get_def db_patch_def)
qed

lemma db_patch_twice: "db_patch (db_patch s fid b) fid b = db_patch s fid b"
  by (simp add: db_patch_def comp_def) 

lemma assertCanDeleteFile_flag:
  "assertCanDeleteFile user (file\<lparr>f_shouldDelete := x\<rparr>) = assertCanDeleteFile user file"
  by (simp add: assertCanDeleteFile_def)

lemma hasAccessToFile_db_patch:
  "hasAccessToFile actor s fid = Some (user, file) \<Longrightarrow>
   hasAccessToFile actor (db_patch s fid b) fid = Some (user, file\<lparr>f_shouldDelete := Some b\<rparr>)"
  by (auto simp: hasAccessToFile_def db_get_db_patch dest: db_get_id split: option.splits)

text \<open>
  Claim C3, as stated, at a concrete input: \<open>alice_left\<close> has the id of the owner of
  \<open>report\<close>, so the claim says her \<^verbatim>\<open>deleteFile\<close> succeeds; she has no membership in
  the file's organisation any more, and \<^verbatim>\<open>hasAccessToFile\<close> turns her away.
\<close>

theorem deleteFile_owner_counterexample:
  "db_get store0 0 = Some report \<and> u_id alice_left = f_userId report \<and>
   deleteFile (Some alice_left) store0 0 = Inl (ConvexError ''No access to file.'')"
  by (simp add: db_get_store0 deleteFile_def hasAccessToFile_def hasAccessToOrg_def
      alice_left_def report_def)

text \<open>
  Claim C3, amended: for every user A and every existing file F, \<^verbatim>\<open>deleteFile\<close>
  succeeds if and only if A has a membership in F's organisation and, in addition, A's id
  is F's \<^verbatim>\<open>userId\<close> or the first membership of A for F's organisation has the role
  admin; it then sets \<^verbatim>\<open>shouldDelete\<close> to true. In every other case it fails with a
  ConvexError: "No access to file." without a membership, "You do not have access to
  delete this file." with one.
\<close>

theorem deleteFile_succeeds_iff:
  assumes "db_get s fileId = Some file"
  shows "((\<exists>s'. deleteFile (Some user) s fileId = Inr s') \<longleftrightarrow>
            hasAccessToOrg (Some user) (f_orgId file) \<noteq> None \<and>
            (f_userId file = u_id user \<or> isAdminOf user (f_orgId file))) \<and>
         (hasAccessToOrg (Some user) (f_orgId file) \<noteq> None \<and>
          (f_userId file = u_id user \<or> isAdminOf user (f_orgId file)) \<longrightarrow>
            deleteFile (Some user) s fileId = Inr (db_patch s fileId True)) \<and>
         (hasAccessToOrg (Some user) (f_orgId file) = None \<longrightarrow>
            deleteFile (Some user) s fileId = Inl (ConvexError ''No access to file.'')) \<and>
         (hasAccessToOrg (Some user) (f_orgId file) \<noteq> None \<and>
          f_userId file \<noteq> u_id user \<and> \<not> isAdminOf user (f_orgId file) \<longrightarrow>
            deleteFile (Some user) s fileId =
              Inl (ConvexError ''You do not have access to delete this file.''))"
  using assms
  by (auto simp: deleteFile_def hasAccessToFile_def assertCanDeleteFile_def hasAccessToOrg_user
      split: option.splits if_splits)

theorem deleteFile_succeeds_iff_witness:
  "db_get store0 0 = Some report \<and>
   deleteFile (Some alice) store0 0 = Inr (db_patch store0 0 True) \<and>
   deleteFile (Some bob) store0 0 = Inr (db_patch store0 0 True) \<and>
   deleteFile (Some carol) store0 0 =
     Inl (ConvexError ''You do not have access to delete this file.'') \<and>
   deleteFile (Some outsider) store0 0 = Inl (ConvexError ''No access to file.'') \<and>
   deleteFile (Some alice_left) store0 0 = Inl (ConvexError ''No access to file.'')"
proof -
  note t = deleteFile_succeeds_iff [OF db_get_store0]
  have a: "hasAccessToOrg (Some alice) (f_orgId report) \<noteq> None \<and> f_userId report = u_id alice"
    by (simp add: hasAccessToOrg_def alice_def report_def)
  have b: "hasAccessToOrg (Some bob) (f_orgId report) \<noteq> None \<and> isAdminOf bob (f_orgId report)"
    by (simp add: hasAccessToOrg_def bob_def report_def isAdminOf_def)
  have c: "hasAccessToOrg (Some carol) (f_orgId report) \<noteq> None \<and>
      f_userId report \<noteq> u_id carol \<and> \<not> isAdminOf carol (f_orgId report)"
    by (simp add: hasAccessToOrg_def carol_def report_def isAdminOf_def)
  have o: "hasAccessToOrg (Some outsider) (f_orgId report) = None"
    by (simp add: hasAccessToOrg_def outsider_def report_def)
  have l: "hasAccessToOrg (Some alice_left) (f_orgId report) = None"
    by (simp add: hasAccessToOrg_def alice_left_def report_def)
  have 1: "deleteFile (Some alice) store0 0 = Inr (db_patch store0 0 True)"
    using t [of alice] a by blast
  have 2: "deleteFile (Some bob) store0 0 = Inr (db_patch store0 0 True)"
    using t [of bob] b by blast
  have 3: "deleteFile (Some carol) store0 0 =
     Inl (ConvexError ''You do not have access to delete this file.'')"
    using t [of carol] c by blast
  have 4: "deleteFile (Some outsider) store0 0 = Inl (ConvexError ''No access to file.'')"
    using t [of outsider] o by blast
  have 5: "deleteFile (Some alice_left) store0 0 = Inl (ConvexError ''No access to file.'')"
    using t [of alice_left] l by blast
  show ?thesis using 1 2 3 4 5 db_get_store0 by simp
qed

text \<open>
  Claim C4, as stated, at a concrete input: file 7 does not exist and file 0 exists in an
  organisation \<open>outsider\<close> is no member of; \<^verbatim>\<open>deleteFile\<close> and \<^verbatim>\<open>restoreFile\<close> end in
  the same failure for both, where the claim says two distinct ones.
\<close>

theorem missing_and_foreign_file_counterexample:
  "db_get store0 7 = None \<and> db_get store0 0 = Some report \<and>
   hasAccessToOrg (Some outsider) (f_orgId report) = None \<and>
   deleteFile (Some outsider) store0 7 = Inl (ConvexError ''No access to file.'') \<and>
   deleteFile (Some outsider) store0 0 = Inl (ConvexError ''No access to file.'') \<and>
   restoreFile (Some outsider) store0 7 = Inl (ConvexError ''No access to file.'') \<and>
   restoreFile (Some outsider) store0 0 = Inl (ConvexError ''No access to file.'')"
  by (simp add: db_get_def store0_def report_def deleteFile_def restoreFile_def
      hasAccessToFile_def hasAccessToOrg_def outsider_def)

text \<open>
  Claim C4, amended: \<^verbatim>\<open>deleteFile\<close> and \<^verbatim>\<open>restoreFile\<close> fail with the same ConvexError
  "No access to file." for a file id that references no file and for an existing file
  whose organisation the actor has no membership in; an existing file of an organisation
  the actor belongs to, which the actor neither owns nor administers, fails with the
  distinct ConvexError "You do not have access to delete this file.".
\<close>

theorem deleteFile_failures:
  "(db_get s fileId = None \<longrightarrow>
      deleteFile actor s fileId = Inl (ConvexError ''No access to file.'') \<and>
      restoreFile actor s fileId = Inl (ConvexError ''No access to file.'')) \<and>
   (\<forall>file. db_get s fileId = Some file \<and> hasAccessToOrg actor (f_orgId file) = None \<longrightarrow>
      deleteFile actor s fileId = Inl (ConvexError ''No access to file.'') \<and>
      restoreFile actor s fileId = Inl (ConvexError ''No access to file.'')) \<and>
   (\<forall>file user. db_get s fileId = Some file \<and> hasAccessToOrg actor (f_orgId file) = Some user \<and>
        f_userId file \<noteq> u_id user \<and> \<not> isAdminOf user (f_orgId file) \<longrightarrow>
      deleteFile actor s fileId =
        Inl (ConvexError ''You do not have access to delete this file.'') \<and>
      restoreFile actor s fileId =
        Inl (ConvexError ''You do not have access to delete this file.''))"
  by (simp add: deleteFile_def restoreFile_def hasAccessToFile_def assertCanDeleteFile_def)

theorem deleteFile_failures_witness:
  "db_get store0 7 = None \<and>
   deleteFile (Some carol) store0 7 = Inl (ConvexError ''No access to file.'') \<and>
   restoreFile (Some carol) store0 7 = Inl (ConvexError ''No access to file.'') \<and>
   db_get store0 0 = Some report \<and> hasAccessToOrg (Some outsider) (f_orgId report) = None \<and>
   deleteFile (Some outsider) store0 0 = Inl (ConvexError ''No access to file.'') \<and>
   restoreFile (Some outsider) store0 0 = Inl (ConvexError ''No access to file.'') \<and>
   hasAccessToOrg (Some carol) (f_orgId report) = Some carol \<and>
   f_userId report \<noteq> u_id carol \<and> \<not> isAdminOf carol (f_orgId report) \<and>
   deleteFile (Some carol) store0 0 =
     Inl (ConvexError ''You do not have access to delete this file.'') \<and>
   restoreFile (Some carol) store0 0 =
     Inl (ConvexError ''You do not have access to delete this file.'')"
proof -
  have m: "db_get store0 7 = None"
    by (simp add: db_get_def store0_def report_def)
  have o: "hasAccessToOrg (Some outsider) (f_orgId report) = None"
    by (simp add: hasAccessToOrg_def outsider_def report_def)
  have c: "hasAccessToOrg (Some carol) (f_orgId report) = Some carol \<and>
      f_userId report \<noteq> u_id carol \<and> \<not> isAdminOf carol (f_orgId report)"
    by (simp add: hasAccessToOrg_def carol_def report_def isAdminOf_def)
  show ?thesis
    using deleteFile_failures [of store0 7 "Some carol"]
      deleteFile_failures [of store0 0 "Some outsider"]
      deleteFile_failures [of store0 0 "Some carol"] m o c db_get_store0
    by blast
qed

text \<open>
  Claim C6: for an actor who may delete the file, a second \<^verbatim>\<open>deleteFile\<close> right after
  the first succeeds and leaves the store as the first left it, with \<^verbatim>\<open>shouldDelete\<close>
  true; likewise a second \<^verbatim>\<open>restoreFile\<close>, with \<^verbatim>\<open>shouldDelete\<close> false.
\<close>

theorem delete_restore_idempotent:
  assumes "hasAccessToFile actor s fileId = Some (user, file)"
    and "assertCanDeleteFile user file = Inr ()"
  shows "deleteFile actor s fileId = Inr (db_patch s fileId True) \<and>
         deleteFile actor (db_patch s fileId True) fileId = Inr (db_patch s fileId True) \<and>
         map_option f_shouldDelete (db_get (db_patch s fileId True) fileId) = Some (Some True) \<and>
         restoreFile actor s fileId = Inr (db_patch s fileId False) \<and>
         restoreFile actor (db_patch s fileId False) fileId = Inr (db_patch s fileId False) \<and>
         map_option f_shouldDelete (db_get (db_patch s fileId False) fileId) = Some (Some False)"
proof -
  have g: "db_get s fileId = Some file"
    using assms(1) by (auto simp: hasAccessToFile_def split: option.splits)
  have i: "f_id file = fileId"
    using g by (rule db_get_id)
  have 1: "deleteFile actor s fileId = Inr (db_patch s fileId True)"
    and 2: "restoreFile actor s fileId = Inr (db_patch s fileId False)"
    using assms by (simp_all add: deleteFile_def restoreFile_def)
  have 3: "deleteFile actor (db_patch s fileId True) fileId = Inr (db_patch s fileId True)"
    using hasAccessToFile_db_patch [OF assms(1), of True] assms(2)
    by (simp add: deleteFile_def assertCanDeleteFile_flag db_patch_twice)
  have 4: "restoreFile actor (db_patch s fileId False) fileId = Inr (db_patch s fileId False)"
    using hasAccessToFile_db_patch [OF assms(1), of False] assms(2)
    by (simp add: restoreFile_def assertCanDeleteFile_flag db_patch_twice)
  have 5: "map_option f_shouldDelete (db_get (db_patch s fileId b) fileId) = Some (Some b)" for b
    using g i by (simp add: db_get_db_patch)
  show ?thesis using 1 2 3 4 5 by simp
qed

theorem delete_restore_idempotent_witness:
  "hasAccessToFile (Some alice) store0 0 = Some (alice, report) \<and>
   assertCanDeleteFile alice report = Inr () \<and>
   deleteFile (Some alice) store0 0 = Inr (db_patch store0 0 True) \<and>
   deleteFile (Some alice) (db_patch store0 0 True) 0 = Inr (db_patch store0 0 True) \<and>
   map_option f_shouldDelete (db_get (db_patch store0 0 True) 0) = Some (Some True) \<and>
   restoreFile (Some alice) store0 0 = Inr (db_patch store0 0 False) \<and>
   restoreFile (Some alice) (db_patch store0 0 False) 0 = Inr (db_patch store0 0 False) \<and>
   map_option f_shouldDelete (db_get (db_patch store0 0 False) 0) = Some (Some False)"
proof -
  have a: "hasAccessToFile (Some alice) store0 0 = Some (alice, report)"
    by (simp add: hasAccessToFile_def db_get_store0 hasAccessToOrg_def alice_def report_def)
  have b: "assertCanDeleteFile alice report = Inr ()"
    by (simp add: assertCanDeleteFile_def alice_def report_def)
  show ?thesis using delete_restore_idempotent [OF a b] a b by simp
qed

section \<open>getFiles\<close>























section \<open>deleteAllFiles\<close>

lemma purgeFile_Inr:
  "purgeFile s doc = Inr s' \<Longrightarrow>
     f_fileId doc \<in> dom (storage s) \<and>
     files s' = filter (\<lambda>f. f_id f \<noteq> f_id doc) (files s) \<and>
     storage s' = (storage s)(f_fileId doc := None) \<and>
     favorites s' = favorites s \<and> nextId s' = nextId s"
  by (auto simp: purgeFile_def storage_delete_def db_delete_file_def split: if_splits)

lemma purgeFile_cases:
  "purgeFile s doc =
     (if f_fileId doc \<in> dom (storage s)
      then Inr (db_delete_file (s\<lparr>storage := (storage s)(f_fileId doc := None)\<rparr>) (f_id doc))
      else Inl BlobUnavailable)"
  by (simp add: purgeFile_def storage_delete_def)

lemma purgeAll_Inr:
  "purgeAll s cs = Inr s' \<Longrightarrow>
     files s' = filter (\<lambda>f. f_id f \<notin> f_id ` set cs) (files s) \<and>
     storage s' = storage s |` (- f_fileId ` set cs) \<and>
     favorites s' = favorites s \<and> nextId s' = nextId s"
proof (induction cs arbitrary: s)
  case Nil
  then show ?case by simp
next
  case (Cons c cs)
  from Cons.prems obtain s1 where 1: "purgeFile s c = Inr s1" and 2: "purgeAll s1 cs = Inr s'"
    by (auto split: sum.splits)
  note p = purgeFile_Inr [OF 1] and q = Cons.IH [OF 2]
  have "storage s' = storage s |` (- f_fileId ` set (c # cs))"
    using p q by (auto simp: restrict_map_def fun_eq_iff)
  moreover have "files s' = filter (\<lambda>f. f_id f \<notin> f_id ` set (c # cs)) (files s)"
    using p q by (auto simp: conj_commute intro: filter_cong)
  ultimately show ?case using p q by simp
qed

lemma purgeAll_Inl: "purgeAll s cs = Inl e \<Longrightarrow> e = BlobUnavailable"
  by (induction cs arbitrary: s) (auto simp: purgeFile_cases split: sum.splits if_splits)

lemma purgeAll_succeeds_iff:
  "(\<exists>s'. purgeAll s cs = Inr s') \<longleftrightarrow>
     distinct (map f_fileId cs) \<and> f_fileId ` set cs \<subseteq> dom (storage s)"
proof (induction cs arbitrary: s)
  case Nil
  then show ?case by simp
next
  case (Cons c cs)
  show ?case
  proof (cases "f_fileId c \<in> dom (storage s)")
    case True
    define s1 where "s1 = db_delete_file (s\<lparr>storage := (storage s)(f_fileId c := None)\<rparr>) (f_id c)"
    have 1: "purgeFile s c = Inr s1"
      using True by (simp add: purgeFile_cases s1_def)
    have d: "dom (storage s1) = dom (storage s) - {f_fileId c}"
      by (auto simp: s1_def db_delete_file_def)
    have "(\<exists>s'. purgeAll s (c # cs) = Inr s') \<longleftrightarrow> (\<exists>s'. purgeAll s1 cs = Inr s')"
      using 1 by simp
    also have "\<dots> \<longleftrightarrow> distinct (map f_fileId cs) \<and> f_fileId ` set cs \<subseteq> dom (storage s1)"
      by (rule Cons.IH)
    also have "\<dots> \<longleftrightarrow> distinct (map f_fileId (c # cs)) \<and> f_fileId ` set (c # cs) \<subseteq> dom (storage s)"
      using True d by (simp add: subset_Diff_insert) blast
    finally show ?thesis .
  next
    case False
    then show ?thesis by (simp add: purgeFile_cases)
  qed
qed

lemma flagged_ids:
  assumes "distinct (map f_id xs)"
  shows "filter (\<lambda>f. f_id f \<notin> f_id ` set (filter P xs)) xs = filter (\<lambda>f. \<not> P f) xs"
proof (rule filter_cong [OF refl])
  fix f assume f: "f \<in> set xs"
  have "f_id f \<in> f_id ` set (filter P xs) \<longleftrightarrow> P f"
  proof
    assume "f_id f \<in> f_id ` set (filter P xs)"
    then obtain g where g: "g \<in> set xs" "P g" "f_id g = f_id f" by auto
    then have "g = f" using assms f by (auto simp: distinct_map dest: inj_onD)
    then show "P f" using g by simp
  next
    assume "P f" then show "f_id f \<in> f_id ` set (filter P xs)" using f by auto
  qed
  then show "(f_id f \<notin> f_id ` set (filter P xs)) = (\<not> P f)" by simp
qed

lemma deleteAllFiles_Inr:
  "deleteAllFiles s = Inr s' \<Longrightarrow>
     files s' = filter (\<lambda>f. f_id f \<notin> f_id ` set (purgeCandidates s)) (files s) \<and>
     storage s' = storage s |` (- f_fileId ` set (purgeCandidates s)) \<and>
     favorites s' = favorites s \<and> nextId s' = nextId s"
  unfolding deleteAllFiles_def by (rule purgeAll_Inr)

text \<open>
  Claim C1, as stated, at a concrete input: \<open>draft\<close> and \<open>memo\<close> are flagged and the blob
  of \<open>memo\<close> is gone. The callback for \<open>memo\<close> ends at the rejected
  \<^verbatim>\<open>ctx.storage.delete\<close>, before its \<^verbatim>\<open>ctx.db.delete\<close>; the sweep fails, and the
  records of both files are still there, where the claim says the record of \<open>memo\<close> is
  deleted and \<open>draft\<close> is purged.
\<close>

theorem purge_failure_counterexample:
  "purgeCandidates trash_gone = [draft, memo] \<and>
   f_fileId draft \<in> dom (storage trash_gone) \<and> f_fileId memo \<notin> dom (storage trash_gone) \<and>
   purgeFile trash_gone memo = Inl BlobUnavailable \<and>
   deleteAllFiles trash_gone = Inl BlobUnavailable \<and>
   files (commit trash_gone (deleteAllFiles trash_gone)) = [report, draft, memo]"
  by (simp add: purgeCandidates_def trash_gone_def report_def draft_def memo_def
      deleteAllFiles_def purgeFile_cases db_delete_file_def commit_def)

text \<open>
  Claim C1, amended: \<^verbatim>\<open>deleteAllFiles\<close> deletes, for every file flagged
  \<^verbatim>\<open>shouldDelete\<close> = true, the blob and then the record. It succeeds exactly when the
  blob of every flagged file is there and no two flagged files share one; it then has
  removed the blob and the record of every flagged file (with unique file ids: those
  records and no other) and no Favorite. In every other case the sweep fails as a whole
  with the rejection of the storage, and no record and no blob is removed.
\<close>

theorem deleteAllFiles_all_or_nothing:
  "((\<exists>s'. deleteAllFiles s = Inr s') \<longleftrightarrow>
      distinct (map f_fileId (purgeCandidates s)) \<and>
      f_fileId ` set (purgeCandidates s) \<subseteq> dom (storage s)) \<and>
   (\<forall>s'. deleteAllFiles s = Inr s' \<longrightarrow>
      files s' = filter (\<lambda>f. f_id f \<notin> f_id ` set (purgeCandidates s)) (files s) \<and>
      (distinct (map f_id (files s)) \<longrightarrow>
         files s' = filter (\<lambda>f. f_shouldDelete f \<noteq> Some True) (files s)) \<and>
      storage s' = storage s |` (- f_fileId ` set (purgeCandidates s)) \<and>
      favorites s' = favorites s) \<and>
   ((\<nexists>s'. deleteAllFiles s = Inr s') \<longrightarrow>
      deleteAllFiles s = Inl BlobUnavailable \<and> commit s (deleteAllFiles s) = s)"
proof -
  have 1: "(\<exists>s'. deleteAllFiles s = Inr s') \<longleftrightarrow>
      distinct (map f_fileId (purgeCandidates s)) \<and>
      f_fileId ` set (purgeCandidates s) \<subseteq> dom (storage s)"
    unfolding deleteAllFiles_def by (rule purgeAll_succeeds_iff)
  have 2: "files s' = filter (\<lambda>f. f_id f \<notin> f_id ` set (purgeCandidates s)) (files s) \<and>
      (distinct (map f_id (files s)) \<longrightarrow>
         files s' = filter (\<lambda>f. f_shouldDelete f \<noteq> Some True) (files s)) \<and>
      storage s' = storage s |` (- f_fileId ` set (purgeCandidates s)) \<and>
      favorites s' = favorites s" if "deleteAllFiles s = Inr s'" for s'
  proof -
    note p = purgeAll_Inr [OF that [unfolded deleteAllFiles_def]]
    have "files s' = filter (\<lambda>f. f_shouldDelete f \<noteq> Some True) (files s)"
      if "distinct (map f_id (files s))"
      using p flagged_ids [OF that, of "\<lambda>f. f_shouldDelete f = Some True"]
      by (simp add: purgeCandidates_def)
    then show ?thesis using p by simp
  qed
  have 3: "deleteAllFiles s = Inl BlobUnavailable \<and> commit s (deleteAllFiles s) = s"
    if "\<nexists>s'. deleteAllFiles s = Inr s'"
  proof -
    from that obtain e where e: "deleteAllFiles s = Inl e"
      by (cases "deleteAllFiles s") auto
    then have "e = BlobUnavailable"
      unfolding deleteAllFiles_def by (rule purgeAll_Inl)
    then show ?thesis using e by (simp add: commit_def)
  qed
  show ?thesis using 1 2 3 by blast
qed

theorem deleteAllFiles_all_or_nothing_witness:
  "distinct (map f_fileId (purgeCandidates trash)) \<and>
   f_fileId ` set (purgeCandidates trash) \<subseteq> dom (storage trash) \<and>
   distinct (map f_id (files trash)) \<and>
   (\<exists>s'. deleteAllFiles trash = Inr s' \<and> files s' = [report] \<and> dom (storage s') = {10} \<and>
      favorites s' = favorites trash) \<and>
   \<not> f_fileId ` set (purgeCandidates trash_gone) \<subseteq> dom (storage trash_gone) \<and>
   deleteAllFiles trash_gone = Inl BlobUnavailable \<and>
   commit trash_gone (deleteAllFiles trash_gone) = trash_gone"
proof -
  have c: "purgeCandidates trash = [draft, memo]" "purgeCandidates trash_gone = [draft, memo]"
    by (simp_all add: purgeCandidates_def trash_def trash_gone_def report_def draft_def memo_def)
  have a: "distinct (map f_fileId (purgeCandidates trash)) \<and>
      f_fileId ` set (purgeCandidates trash) \<subseteq> dom (storage trash)"
    by (simp add: c) (simp add: trash_def draft_def memo_def)
  have d: "distinct (map f_id (files trash))"
    by (simp add: trash_def report_def draft_def memo_def)
  have f: "filter (\<lambda>f. f_shouldDelete f \<noteq> Some True) (files trash) = [report]"
    by (simp add: trash_def report_def draft_def memo_def)
  have g: "dom (storage trash |` (- f_fileId ` set (purgeCandidates trash))) = {10}"
    by (simp add: c) (auto simp: trash_def draft_def memo_def split: if_splits)
  have b: "\<not> f_fileId ` set (purgeCandidates trash_gone) \<subseteq> dom (storage trash_gone)"
    by (simp add: c) (simp add: trash_gone_def draft_def memo_def)
  note t = deleteAllFiles_all_or_nothing [of trash]
  note u = deleteAllFiles_all_or_nothing [of trash_gone]
  from t a obtain s' where s': "deleteAllFiles trash = Inr s'" by blast
  with t d f g have "files s' = [report] \<and> dom (storage s') = {10} \<and> favorites s' = favorites trash"
    by metis
  moreover from u b have "deleteAllFiles trash_gone = Inl BlobUnavailable \<and>
      commit trash_gone (deleteAllFiles trash_gone) = trash_gone"
    by blast
  ultimately show ?thesis using a b d s' by blast
qed

section \<open>toggleFavorite\<close>

lemma hasAccessToFile_files:
  "files s' = files s \<Longrightarrow> hasAccessToFile actor s' fid = hasAccessToFile actor s fid"
  by (simp add: hasAccessToFile_def db_get_def)

lemma hasAccessToFile_id: "hasAccessToFile actor s fid = Some (user, file) \<Longrightarrow> f_id file = fid"
  by (auto simp: hasAccessToFile_def dest: db_get_id split: option.splits)

lemma find_snoc:
  "find P (xs @ [x]) = (case find P xs of None \<Rightarrow> (if P x then Some x else None) | Some y \<Rightarrow> Some y)"
  by (induction xs) auto

lemma filter_singleton:
  assumes "length (filter Q xs) \<le> 1" and "r \<in> set xs" and "Q r"
  shows "filter Q xs = [r]"
proof -
  have "r \<in> set (filter Q xs)" using assms by simp
  then show ?thesis using assms(1)
    by (cases "filter Q xs") (auto simp: le_Suc_eq)
qed

lemma hasAccessToFile_in_files:
  "hasAccessToFile actor s fid = Some (user, file) \<Longrightarrow> file \<in> set (files s)"
  by (auto simp: hasAccessToFile_def db_get_def find_Some_iff split: option.splits)

text \<open>
  Claim C7: for an actor A with read access to the file F, in a store with at most one
  Favorite record for (A, F) whose Favorite ids were all handed out before \<open>nextId\<close>, two
  calls of \<^verbatim>\<open>toggleFavorite\<close> in a row both succeed and leave a Favorite record for
  (A, F) exactly if there was one before; starting from none, the first call leaves
  exactly one record for (A, F) and the second none.
\<close>

theorem toggleFavorite_twice:
  assumes "hasAccessToFile actor s fileId = Some (user, file)"
    and "length (favoriteRecords s (u_id user) fileId) \<le> 1"
    and "list_all (\<lambda>v. fav_id v < nextId s) (favorites s)"
  shows "\<exists>s1 s2. toggleFavorite actor s fileId = Inr s1 \<and>
           toggleFavorite actor s1 fileId = Inr s2 \<and>
           (favoriteRecords s2 (u_id user) fileId = [] \<longleftrightarrow>
              favoriteRecords s (u_id user) fileId = []) \<and>
           (favoriteRecords s (u_id user) fileId = [] \<longrightarrow>
              length (favoriteRecords s1 (u_id user) fileId) = 1 \<and>
              favoriteRecords s2 (u_id user) fileId = [])"
proof -
  define P :: "favorite \<Rightarrow> bool" where "P = (\<lambda>v. fav_userId v = u_id user \<and> fav_orgId v = f_orgId file \<and>
                           fav_fileId v = f_id file)"
  define Q :: "favorite \<Rightarrow> bool" where "Q = (\<lambda>v. fav_userId v = u_id user \<and> fav_fileId v = fileId)"
  have fid: "f_id file = fileId"
    using assms(1) by (rule hasAccessToFile_id)
  have PQ: "P v \<Longrightarrow> Q v" for v
    by (simp add: P_def Q_def fid)
  have recs: "favoriteRecords t (u_id user) fileId = filter Q (favorites t)" for t :: "'a state"
    by (simp add: favoriteRecords_def Q_def)
  have tog: "toggleFavorite actor t fileId =
      (case find P (favorites t) of
         None \<Rightarrow> Inr (t\<lparr>favorites := favorites t @
                        [\<lparr>fav_id = nextId t, fav_fileId = f_id file, fav_userId = u_id user,
                          fav_orgId = f_orgId file\<rparr>],
                      nextId := Suc (nextId t)\<rparr>)
       | Some favorite \<Rightarrow> Inr (db_delete_favorite t (fav_id favorite)))"
    if "files t = files s" for t
    using hasAccessToFile_files [OF that, of actor fileId] assms(1)
    by (simp add: toggleFavorite_def P_def)
  show ?thesis
  proof (cases "find P (favorites s)")
    case None
    define n :: favorite where "n = \<lparr>fav_id = nextId s, fav_fileId = f_id file, fav_userId = u_id user,
                          fav_orgId = f_orgId file\<rparr>"
    define s1 where "s1 = s\<lparr>favorites := favorites s @ [n], nextId := Suc (nextId s)\<rparr>"
    have Pn: "P n" by (simp add: P_def n_def)
    have 1: "toggleFavorite actor s fileId = Inr s1"
      using tog [of s] None by (simp add: s1_def n_def)
    have f1: "find P (favorites s1) = Some n"
      using None Pn by (simp add: s1_def find_snoc)
    have 2: "toggleFavorite actor s1 fileId = Inr (db_delete_favorite s1 (nextId s))"
      using tog [of s1] f1 by (simp add: s1_def n_def)
    have keep: "filter (\<lambda>v. fav_id v \<noteq> nextId s) (favorites s) = favorites s"
      using assms(3) by (auto simp: list_all_iff filter_id_conv)
    have fav2: "favorites (db_delete_favorite s1 (nextId s)) = favorites s"
      using keep by (simp add: db_delete_favorite_def s1_def n_def)
    have r2: "favoriteRecords (db_delete_favorite s1 (nextId s)) (u_id user) fileId =
        favoriteRecords s (u_id user) fileId"
      by (simp add: recs fav2)
    have r1: "favoriteRecords s1 (u_id user) fileId = favoriteRecords s (u_id user) fileId @ [n]"
      using PQ [OF Pn] by (simp add: recs s1_def)
    show ?thesis
      using 1 2 r1 r2 by simp
  next
    case (Some r)
    then have rin: "r \<in> set (favorites s)" and Pr: "P r"
      by (auto simp: find_Some_iff)
    have one: "filter Q (favorites s) = [r]"
      using assms(2) rin PQ [OF Pr] by (intro filter_singleton) (simp_all add: recs)
    define s1 where "s1 = db_delete_favorite s (fav_id r)"
    have 1: "toggleFavorite actor s fileId = Inr s1"
      using tog [of s] Some by (simp add: s1_def)
    have "filter Q (favorites s1) = filter (\<lambda>v. fav_id v \<noteq> fav_id r) (filter Q (favorites s))"
      by (simp add: s1_def db_delete_favorite_def conj_commute)
    then have none1: "filter Q (favorites s1) = []"
      using one by simp
    have "find P (favorites s1) = None"
    proof (rule ccontr)
      assume "find P (favorites s1) \<noteq> None"
      then obtain v where "v \<in> set (favorites s1)" "P v"
        by (auto simp: find_None_iff)
      then have "v \<in> set (filter Q (favorites s1))"
        using PQ by simp
      then show False using none1 by simp
    qed
    then have 2: "toggleFavorite actor s1 fileId =
        Inr (s1\<lparr>favorites := favorites s1 @
                        [\<lparr>fav_id = nextId s1, fav_fileId = f_id file, fav_userId = u_id user,
                          fav_orgId = f_orgId file\<rparr>],
                      nextId := Suc (nextId s1)\<rparr>)"
      using tog [of s1] by (simp add: s1_def db_delete_favorite_def)
    have r2: "favoriteRecords (s1\<lparr>favorites := favorites s1 @
                        [\<lparr>fav_id = nextId s1, fav_fileId = f_id file, fav_userId = u_id user,
                          fav_orgId = f_orgId file\<rparr>],
                      nextId := Suc (nextId s1)\<rparr>) (u_id user) fileId \<noteq> []"
      by (simp add: recs Q_def fid)
    have r0: "favoriteRecords s (u_id user) fileId \<noteq> []"
      using one by (simp add: recs)
    show ?thesis
      using 1 2 r2 r0 by simp
  qed
qed

theorem toggleFavorite_twice_witness:
  "hasAccessToFile (Some carol) store0 0 = Some (carol, report) \<and>
   length (favoriteRecords store0 (u_id carol) 0) \<le> 1 \<and>
   list_all (\<lambda>v. fav_id v < nextId store0) (favorites store0) \<and>
   favoriteRecords store0 (u_id carol) 0 = [] \<and>
   (\<exists>s1 s2. toggleFavorite (Some carol) store0 0 = Inr s1 \<and>
      toggleFavorite (Some carol) s1 0 = Inr s2 \<and>
      length (favoriteRecords s1 (u_id carol) 0) = 1 \<and>
      favoriteRecords s2 (u_id carol) 0 = []) \<and>
   hasAccessToFile (Some carol) starred 0 = Some (carol, report) \<and>
   length (favoriteRecords starred (u_id carol) 0) \<le> 1 \<and>
   list_all (\<lambda>v. fav_id v < nextId starred) (favorites starred) \<and>
   favoriteRecords starred (u_id carol) 0 \<noteq> [] \<and>
   (\<exists>s1 s2. toggleFavorite (Some carol) starred 0 = Inr s1 \<and>
      toggleFavorite (Some carol) s1 0 = Inr s2 \<and>
      favoriteRecords s2 (u_id carol) 0 \<noteq> [])"
proof -
  have a: "hasAccessToFile (Some carol) store0 0 = Some (carol, report)"
    by (simp add: hasAccessToFile_def db_get_store0 hasAccessToOrg_def carol_def report_def)
  have b: "favoriteRecords store0 (u_id carol) 0 = []"
    by (simp add: favoriteRecords_def store0_def)
  have c: "list_all (\<lambda>v. fav_id v < nextId store0) (favorites store0)"
    by (simp add: store0_def)
  have d: "length (favoriteRecords store0 (u_id carol) 0) \<le> 1"
    by (simp add: b)
  have a': "hasAccessToFile (Some carol) starred 0 = Some (carol, report)"
    by (simp add: hasAccessToFile_def db_get_def starred_def hasAccessToOrg_def carol_def
        report_def)
  have b': "favoriteRecords starred (u_id carol) 0 \<noteq> []"
    by (simp add: favoriteRecords_def starred_def carol_def)
  have c': "list_all (\<lambda>v. fav_id v < nextId starred) (favorites starred)"
    by (simp add: starred_def)
  have d': "length (favoriteRecords starred (u_id carol) 0) \<le> 1"
    by (simp add: favoriteRecords_def starred_def)
  have 1: "\<exists>s1 s2. toggleFavorite (Some carol) store0 0 = Inr s1 \<and>
      toggleFavorite (Some carol) s1 0 = Inr s2 \<and>
      length (favoriteRecords s1 (u_id carol) 0) = 1 \<and>
      favoriteRecords s2 (u_id carol) 0 = []"
    using toggleFavorite_twice [OF a d c] b by auto
  have 2: "\<exists>s1 s2. toggleFavorite (Some carol) starred 0 = Inr s1 \<and>
      toggleFavorite (Some carol) s1 0 = Inr s2 \<and>
      favoriteRecords s2 (u_id carol) 0 \<noteq> []"
    using toggleFavorite_twice [OF a' d' c'] b' by auto
  show ?thesis
    using a b c d a' b' c' d' 1 2 by blast
qed

section \<open>Uniqueness of favorites\<close>

lemma inv_createFile:
  assumes "wellFormed s" "favoritesUnique s" "createFile actor s args = Inr s'"
  shows "wellFormed s' \<and> favoritesUnique s'"
proof -
  from assms(3) obtain user where u: "hasAccessToOrg actor (c_orgId args) = Some user"
    by (auto simp: createFile_def split: option.splits)
  have s': "s' = s\<lparr>files := files s @
                 [\<lparr>f_id = nextId s, f_name = c_name args, f_orgId = c_orgId args,
                   f_fileId = c_fileId args, f_type = c_type args, f_userId = u_id user,
                   f_shouldDelete = None\<rparr>],
               nextId := Suc (nextId s)\<rparr>"
    using assms(3) u by (simp add: createFile_def)
  have "favoritesUnique s'"
    using assms(2) by (simp add: favoritesUnique_def s')
  moreover have "wellFormed s'"
    using assms(1) unfolding wellFormed_iff s' by (fastforce simp: less_Suc_eq)
  ultimately show ?thesis by simp
qed

lemma inv_db_patch:
  assumes "wellFormed s" "favoritesUnique s"
  shows "wellFormed (db_patch s fid b) \<and> favoritesUnique (db_patch s fid b)"
proof -
  have m: "map f_id (files (db_patch s fid b)) = map f_id (files s)"
    by (simp add: db_patch_def comp_def)
  have "favoritesUnique (db_patch s fid b)"
    using assms(2) by (simp add: favoritesUnique_def db_patch_def)
  moreover have "wellFormed (db_patch s fid b)"
    using assms(1) unfolding wellFormed_iff m
    by (auto simp: db_patch_def)
  ultimately show ?thesis by simp
qed

lemma inv_deleteFile:
  assumes "wellFormed s" "favoritesUnique s" "deleteFile actor s fid = Inr s'"
  shows "wellFormed s' \<and> favoritesUnique s'"
proof -
  from assms(3) have "s' = db_patch s fid True"
    by (auto simp: deleteFile_def split: option.splits sum.splits)
  then show ?thesis using inv_db_patch [OF assms(1,2)] by simp
qed

lemma inv_restoreFile:
  assumes "wellFormed s" "favoritesUnique s" "restoreFile actor s fid = Inr s'"
  shows "wellFormed s' \<and> favoritesUnique s'"
proof -
  from assms(3) have "s' = db_patch s fid False"
    by (auto simp: restoreFile_def split: option.splits sum.splits)
  then show ?thesis using inv_db_patch [OF assms(1,2)] by simp
qed

lemma inv_deleteAllFiles:
  assumes "wellFormed s" "favoritesUnique s" "deleteAllFiles s = Inr s'"
  shows "wellFormed s' \<and> favoritesUnique s'"
proof -
  note d = deleteAllFiles_Inr [OF assms(3)]
  have "favoritesUnique s'"
    using assms(2) d by (simp add: favoritesUnique_def)
  moreover have "wellFormed s'"
    using assms(1) d unfolding wellFormed_iff
    by (auto simp: distinct_map_filter)
  ultimately show ?thesis by simp
qed

lemma inv_toggleFavorite:
  assumes "wellFormed s" "favoritesUnique s" "toggleFavorite actor s fid = Inr s'"
  shows "wellFormed s' \<and> favoritesUnique s'"
proof -
  from assms(3) obtain user doc where
    acc: "hasAccessToFile actor s fid = Some (user, doc)"
    by (auto simp: toggleFavorite_def split: option.splits)
  have fin: "doc \<in> set (files s)"
    using acc by (rule hasAccessToFile_in_files)
  define P :: "favorite \<Rightarrow> bool" where
    "P = (\<lambda>v. fav_userId v = u_id user \<and> fav_orgId v = f_orgId doc \<and> fav_fileId v = f_id doc)"
  show ?thesis
  proof (cases "find P (favorites s)")
    case None
    define n :: favorite where "n = \<lparr>fav_id = nextId s, fav_fileId = f_id doc,
        fav_userId = u_id user, fav_orgId = f_orgId doc\<rparr>"
    have s': "s' = s\<lparr>favorites := favorites s @ [n], nextId := Suc (nextId s)\<rparr>"
      using assms(3) acc None by (simp add: toggleFavorite_def P_def n_def)
    have noP: "\<not> P v" if "v \<in> set (favorites s)" for v
      using None that by (auto simp: find_None_iff)
    have new: "(fav_userId v, fav_fileId v) \<noteq> (u_id user, f_id doc)"
      if v: "v \<in> set (favorites s)" for v
    proof
      assume e: "(fav_userId v, fav_fileId v) = (u_id user, f_id doc)"
      then have "fav_orgId v = f_orgId doc"
        using assms(1) v fin unfolding wellFormed_iff by auto
      then have "P v" using e by (simp add: P_def)
      then show False using noP [OF v] by simp
    qed
    have "(u_id user, f_id doc) \<notin> (\<lambda>v. (fav_userId v, fav_fileId v)) ` set (favorites s)"
    proof
      assume "(u_id user, f_id doc) \<in> (\<lambda>v. (fav_userId v, fav_fileId v)) ` set (favorites s)"
      then obtain v where "v \<in> set (favorites s)"
        and "(fav_userId v, fav_fileId v) = (u_id user, f_id doc)"
        by force
      then show False using new by blast
    qed
    then have "favoritesUnique s'"
      using assms(2) by (simp add: favoritesUnique_def s' n_def)
    moreover have "wellFormed s'"
    proof -
      have lt: "f_id doc < nextId s"
        using assms(1) fin unfolding wellFormed_iff by auto
      have same: "f = doc" if "f \<in> set (files s)" "f_id f = f_id doc" for f
        using assms(1) fin that unfolding wellFormed_iff
        by (auto simp: distinct_map dest: inj_onD)
      show ?thesis
        using assms(1) lt same unfolding wellFormed_iff s'
        by (auto simp: n_def less_Suc_eq)
    qed
    ultimately show ?thesis by simp
  next
    case (Some r)
    have s': "s' = db_delete_favorite s (fav_id r)"
      using assms(3) acc Some by (simp add: toggleFavorite_def P_def)
    have "favoritesUnique s'"
      using assms(2) by (simp add: favoritesUnique_def s' db_delete_favorite_def distinct_map_filter)
    moreover have "wellFormed s'"
      using assms(1) unfolding wellFormed_iff s' by (auto simp: db_delete_favorite_def)
    ultimately show ?thesis by simp
  qed
qed

lemma inv_step:
  assumes "wellFormed s" "favoritesUnique s"
  shows "wellFormed (step s operation) \<and> favoritesUnique (step s operation)"
proof (cases operation)
  case (CreateFile actor args)
  then show ?thesis
    using assms inv_createFile [OF assms, of actor args]
    by (cases "createFile actor s args") (simp_all add: commit_def)
next
  case (DeleteFile actor fid)
  then show ?thesis
    using assms inv_deleteFile [OF assms, of actor fid]
    by (cases "deleteFile actor s fid") (simp_all add: commit_def)
next
  case (RestoreFile actor fid)
  then show ?thesis
    using assms inv_restoreFile [OF assms, of actor fid]
    by (cases "restoreFile actor s fid") (simp_all add: commit_def)
next
  case (ToggleFavorite actor fid)
  then show ?thesis
    using assms inv_toggleFavorite [OF assms, of actor fid]
    by (cases "toggleFavorite actor s fid") (simp_all add: commit_def)
next
  case DeleteAllFiles
  then show ?thesis
    using assms inv_deleteAllFiles [OF assms]
    by (cases "deleteAllFiles s") (simp_all add: commit_def)
qed

text \<open>
  The organisation a Favorite carries matters: in \<open>crossed\<close>, a store no sequence of
  operations builds, the lookup of \<^verbatim>\<open>toggleFavorite\<close> misses the Favorite of \<open>carol\<close> for
  \<open>report\<close> and inserts a second one. The stores the operations build are well-formed.
\<close>

lemma crossed_not_wellFormed:
  "favoritesUnique crossed \<and> \<not> wellFormed crossed \<and>
   \<not> favoritesUnique (run crossed [ToggleFavorite (Some carol) 0])"
  by (simp add: favoritesUnique_def wellFormed_def crossed_def run_def commit_def
      toggleFavorite_def hasAccessToFile_def db_get_def report_def hasAccessToOrg_def carol_def)

text \<open>
  Claim C9: every operation preserves the invariant that at most one Favorite record
  exists per (userId, fileId) pair. Starting from a store that satisfies this uniqueness
  and is as the operations build it (\<open>wellFormed\<close>: ids as the store hands them out, and
  every Favorite whose file is there carrying that file's organisation; the store before
  the first operation is one), no sequence of \<^verbatim>\<open>createFile\<close>, \<^verbatim>\<open>deleteFile\<close>,
  \<^verbatim>\<open>restoreFile\<close>, \<^verbatim>\<open>toggleFavorite\<close> and \<^verbatim>\<open>deleteAllFiles\<close> calls produces a store with
  two Favorite records for the same user and file, and the store stays well-formed.
\<close>

theorem favoritesUnique_preserved:
  assumes "wellFormed s" and "favoritesUnique s"
  shows "favoritesUnique (run s ops) \<and> wellFormed (run s ops)"
  using assms
proof (induction ops arbitrary: s)
  case Nil
  then show ?case by (simp add: run_def)
next
  case (Cons operation ops)
  have "wellFormed (step s operation) \<and> favoritesUnique (step s operation)"
    using Cons.prems by (rule inv_step)
  then show ?case
    using Cons.IH [of "step s operation"] by (simp add: run_def)
qed

theorem favoritesUnique_preserved_witness:
  "wellFormed uploaded \<and> favoritesUnique uploaded \<and>
   favoritesUnique (run uploaded session) \<and> wellFormed (run uploaded session)"
proof -
  have a: "wellFormed uploaded"
    by (simp add: wellFormed_def uploaded_def)
  have b: "favoritesUnique uploaded"
    by (simp add: favoritesUnique_def uploaded_def)
  show ?thesis
    using favoritesUnique_preserved [OF a b, of session] a b by simp
qed

end
